theory Spec2Isabelle
  imports Complex_Main
begin

section \<open>Values exchanged with the weather provider\<close>

text \<open>
  \<^verbatim>\<open>response.json()\<close> yields a Python value built from \<^verbatim>\<open>None\<close>, booleans, numbers,
  strings, lists and dicts. \<open>JNull\<close> is Python's \<^verbatim>\<open>None\<close>; a dict is kept as its list of
  items (the keys of a parsed dict are distinct, so \<open>map_of\<close> is its lookup). Numbers are
  reals: no arithmetic is done on them, they are only passed along.
\<close>

datatype json =
    JNull
  | JBool bool
  | JNum real
  | JStr string
  | JArr "json list"
  | JObj "(string \<times> json) list"

text \<open>The exceptions (all subclasses of \<^verbatim>\<open>Exception\<close>) that the modelled code can meet.\<close>

datatype exn =
    ClientError
  | TimeoutError
  | ContentTypeError
  | JSONDecodeError
  | AttributeError

text \<open>
  \<^verbatim>\<open>obj.get(key, default)\<close>: only a dict has the method; on any other value the attribute
  lookup raises \<^verbatim>\<open>AttributeError\<close>.
\<close>

fun py_get :: "json \<Rightarrow> string \<Rightarrow> json \<Rightarrow> exn + json" where
  "py_get (JObj items) key dflt =
     Inr (case map_of items key of None \<Rightarrow> dflt | Some v \<Rightarrow> v)"
| "py_get _ key dflt = Inl AttributeError"

text \<open>
  What \<^verbatim>\<open>session.get(url, params=...)\<close> does for one request: it raises (connection
  refused, timeout, ...), or it yields a response with a status and a body, whose
  \<^verbatim>\<open>.json()\<close> either raises or yields the parsed value.
\<close>

datatype body = Unparsable exn | Parsed json

datatype get_result = Raised exn | Response int body

type_synonym session = "real \<Rightarrow> real \<Rightarrow> get_result"

text \<open>The body of the \<^verbatim>\<open>try\<close> block of \<^verbatim>\<open>fetch_weather\<close>.\<close>

definition fetch_weather_try :: "session \<Rightarrow> real \<Rightarrow> real \<Rightarrow> exn + json" where
  "fetch_weather_try session latitude longitude =
     (case session latitude longitude of
        Raised e \<Rightarrow> Inl e
      | Response status payload \<Rightarrow>
          if status \<noteq> 200 then Inr JNull
          else (case payload of
                  Unparsable e \<Rightarrow> Inl e
                | Parsed data \<Rightarrow>
                    (case py_get data ''current_weather'' (JObj []) of
                       Inl e \<Rightarrow> Inl e
                     | Inr current \<Rightarrow> py_get current ''temperature'' JNull)))"

text \<open>
  \<^verbatim>\<open>except Exception: return None\<close> turns every exception of the block into \<^verbatim>\<open>None\<close>,
  so the function itself has no error branch.
\<close>

definition fetch_weather :: "session \<Rightarrow> real \<Rightarrow> real \<Rightarrow> json" where
  "fetch_weather session latitude longitude =
     (case fetch_weather_try session latitude longitude of
        Inl e \<Rightarrow> JNull
      | Inr v \<Rightarrow> v)"

section \<open>The tables\<close>

text \<open>
  A \<^verbatim>\<open>DateTime\<close> is a count of microseconds (the resolution of Python's
  \<^verbatim>\<open>datetime\<close>), so that subtraction and comparison are exact. The attribute
  \<open>temperature\<close> holds whatever \<^verbatim>\<open>fetch_weather\<close> returned, \<open>JNull\<close> being \<^verbatim>\<open>None\<close>.
\<close>

type_synonym datetime = int

record city =
  city_id :: int
  name :: string
  latitude :: real
  longitude :: real
  temperature :: json
  updated_at :: "datetime option"
  user_id :: int

definition timedelta_minutes :: "int \<Rightarrow> int" where
  "timedelta_minutes m = m * 60 * 1000000"

section \<open>Refreshing one city\<close>

text \<open>
  The condition of line 200. \<^verbatim>\<open>not city.updated_at\<close> holds exactly when the attribute is
  \<^verbatim>\<open>None\<close> (a \<^verbatim>\<open>datetime\<close> is always truthy), and \<^verbatim>\<open>or\<close> then skips the subtraction.
\<close>

definition is_stale :: "datetime \<Rightarrow> city \<Rightarrow> bool" where
  "is_stale now c =
     (case updated_at c of
        None \<Rightarrow> True
      | Some t \<Rightarrow> now - t > timedelta_minutes 15)"

text \<open>
  \<^verbatim>\<open>update_city\<close> returns the city as it leaves it and the requests it sent, each
  request being the coordinate pair of its parameters.
\<close>

type_synonym request = "real \<times> real"

definition update_city :: "datetime \<Rightarrow> session \<Rightarrow> city \<Rightarrow> city \<times> request list" where
  "update_city now session c =
     (if is_stale now c
      then (c\<lparr>temperature := fetch_weather session (latitude c) (longitude c),
               updated_at := Some now\<rparr>,
            [(latitude c, longitude c)])
      else (c, []))"

section \<open>A batch: \<^verbatim>\<open>asyncio.gather\<close> over the cities\<close>

text \<open>
  One session is shared by the batch; what it answers may differ from request to request,
  so the provider is a family of answers indexed by the primary key of the city the
  request is made for.

  \<open>gather\<close> is the batch seen from its caller, once every coroutine has finished: the
  cities in the order given, and the requests sent, grouped by city in that order.
\<close>

type_synonym provider = "int \<Rightarrow> session"

definition gather :: "datetime \<Rightarrow> provider \<Rightarrow> city list \<Rightarrow> city list \<times> request list" where
  "gather now net cs =
     (map (\<lambda>c. fst (update_city now (net (city_id c)) c)) cs,
      concat (map (\<lambda>c. snd (update_city now (net (city_id c)) c)) cs))"

text \<open>
  The same batch, coroutine by coroutine. A coroutine of \<^verbatim>\<open>update_city\<close> runs from its
  start to the \<^verbatim>\<open>await\<close> (the test of line 200, and the request when the test holds), is
  suspended there, and on the answer runs to its end (the two assignments, with no
  \<^verbatim>\<open>await\<close> between them). The event loop resumes the coroutines in an order of its own: a
  schedule is the list of the positions it resumes, and resuming a finished coroutine or a
  position that holds none does nothing.
\<close>

datatype phase = Start | Waiting | Done

record task =
  phase :: phase
  subject :: city
  sent :: "request list"

definition resume :: "datetime \<Rightarrow> session \<Rightarrow> task \<Rightarrow> task" where
  "resume now session t =
     (case phase t of
        Start \<Rightarrow>
          if is_stale now (subject t)
          then t\<lparr>phase := Waiting,
                 sent := sent t @ [(latitude (subject t), longitude (subject t))]\<rparr>
          else t\<lparr>phase := Done\<rparr>
      | Waiting \<Rightarrow>
          t\<lparr>phase := Done,
            subject := (subject t)
              \<lparr>temperature :=
                 fetch_weather session (latitude (subject t)) (longitude (subject t)),
               updated_at := Some now\<rparr>\<rparr>
      | Done \<Rightarrow> t)"

definition advance :: "datetime \<Rightarrow> provider \<Rightarrow> task \<Rightarrow> task" where
  "advance now net t = resume now (net (city_id (subject t))) t"

definition step :: "datetime \<Rightarrow> provider \<Rightarrow> nat \<Rightarrow> task list \<Rightarrow> task list" where
  "step now net i ts = (if i < length ts then ts[i := advance now net (ts ! i)] else ts)"

definition run_loop :: "datetime \<Rightarrow> provider \<Rightarrow> nat list \<Rightarrow> task list \<Rightarrow> task list" where
  "run_loop now net schedule ts = fold (step now net) schedule ts"

definition new_task :: "city \<Rightarrow> task" where
  "new_task c = \<lparr>phase = Start, subject = c, sent = []\<rparr>"

definition spawn :: "city list \<Rightarrow> task list" where
  "spawn cs = map new_task cs"

definition all_done :: "task list \<Rightarrow> bool" where
  "all_done ts = list_all (\<lambda>t. phase t = Done) ts"

text \<open>The schedule that starts every coroutine in turn, then completes every one in turn.\<close>

definition round_robin :: "nat \<Rightarrow> nat list" where
  "round_robin n = [0..<n] @ [0..<n]"

section \<open>The database and the endpoints\<close>

record user =
  user_ident :: int
  username :: string
  password_hash :: string
  is_active :: bool

record default_city =
  default_id :: int
  default_name :: string
  default_latitude :: real
  default_longitude :: real

record db =
  users :: "user list"
  cities :: "city list"
  default_cities :: "default_city list"

text \<open>
  A row added without a primary key receives the integer after the largest key of its
  table (SQLite's rule for an \<^verbatim>\<open>INTEGER PRIMARY KEY\<close>), 1 in an empty table.
\<close>

definition next_id :: "int list \<Rightarrow> int" where
  "next_id keys = fold max keys 0 + 1"

text \<open>\<^verbatim>\<open>db.add(City(name=..., latitude=..., longitude=..., user_id=...))\<close>, flushed.\<close>

definition insert_city :: "string \<Rightarrow> real \<Rightarrow> real \<Rightarrow> int \<Rightarrow> city list \<Rightarrow> city list" where
  "insert_city nm lat lon owner cs =
     cs @ [\<lparr>city_id = next_id (map city_id cs), name = nm, latitude = lat,
            longitude = lon, temperature = JNull, updated_at = None, user_id = owner\<rparr>]"

text \<open>The loop over the default cities, in \<^verbatim>\<open>reset_cities\<close> and in \<^verbatim>\<open>login\<close>.\<close>

definition add_defaults :: "default_city list \<Rightarrow> int \<Rightarrow> city list \<Rightarrow> city list" where
  "add_defaults ds owner cs =
     fold (\<lambda>d. insert_city (default_name d) (default_latitude d) (default_longitude d) owner)
       ds cs"

text \<open>
  \<^verbatim>\<open>commit\<close> after rows loaded from the table were changed in place: each changed object
  is written to the row of its primary key.
\<close>

definition commit_cities :: "city list \<Rightarrow> city list \<Rightarrow> city list" where
  "commit_cities changed table =
     map (\<lambda>row. case find (\<lambda>c. city_id c = city_id row) changed of
                   None \<Rightarrow> row
                 | Some c \<Rightarrow> c) table"

datatype response =
    RedirectResponse string
  | RedirectSetCookie string int
  | RedirectDeleteCookie string
  | TemplateResponse string

text \<open>
  The cookie is \<^verbatim>\<open>None\<close> when the request has none; \<^verbatim>\<open>not user_id\<close> also holds for 0.
\<close>

definition get_current_user :: "int option \<Rightarrow> db \<Rightarrow> user option" where
  "get_current_user cookie d =
     (case cookie of
        None \<Rightarrow> None
      | Some uid \<Rightarrow> if uid = 0 then None else find (\<lambda>u. user_ident u = uid) (users d))"


definition add_city :: "string \<Rightarrow> real \<Rightarrow> real \<Rightarrow> int option \<Rightarrow> db \<Rightarrow> exn + db \<times> response" where
  "add_city nm lat lon cookie d =
     (case get_current_user cookie d of
        None \<Rightarrow> Inl AttributeError
      | Some u \<Rightarrow>
          (case find (\<lambda>c. name c = nm \<and> user_id c = user_ident u) (cities d) of
             Some existing \<Rightarrow> Inr (d, RedirectResponse ''/'')
           | None \<Rightarrow>
               Inr (d\<lparr>cities := insert_city nm lat lon (user_ident u) (cities d)\<rparr>,
                    RedirectResponse ''/'')))"

definition remove_city :: "int \<Rightarrow> int option \<Rightarrow> db \<Rightarrow> exn + db \<times> response" where
  "remove_city cid cookie d =
     (case get_current_user cookie d of
        None \<Rightarrow> Inl AttributeError
      | Some u \<Rightarrow>
          (case find (\<lambda>c. city_id c = cid \<and> user_id c = user_ident u) (cities d) of
             Some c \<Rightarrow>
               Inr (d\<lparr>cities := filter (\<lambda>row. city_id row \<noteq> city_id c) (cities d)\<rparr>,
                    RedirectResponse ''/'')
           | None \<Rightarrow> Inr (d, RedirectResponse ''/'')))"

definition reset_cities :: "int option \<Rightarrow> db \<Rightarrow> exn + db \<times> response" where
  "reset_cities cookie d =
     (case get_current_user cookie d of
        None \<Rightarrow> Inl AttributeError
      | Some u \<Rightarrow>
          Inr (d\<lparr>cities :=
                   add_defaults (default_cities d) (user_ident u)
                     (filter (\<lambda>c. user_id c \<noteq> user_ident u) (cities d))\<rparr>,
               RedirectResponse ''/''))"

text \<open>
  \<open>now\<close> is the value of the one call of \<^verbatim>\<open>datetime.utcnow()\<close>, on line 195. The endpoint
  also returns the requests of its batch.
\<close>

definition update_weather ::
  "datetime \<Rightarrow> provider \<Rightarrow> int option \<Rightarrow> db \<Rightarrow> exn + db \<times> request list \<times> response" where
  "update_weather now net cookie d =
     (case get_current_user cookie d of
        None \<Rightarrow> Inl AttributeError
      | Some u \<Rightarrow>
          (let cs = filter (\<lambda>c. user_id c = user_ident u) (cities d);
               (cs', requests) = gather now net cs
           in Inr (d\<lparr>cities := commit_cities cs' (cities d)\<rparr>, requests,
                   RedirectResponse ''/'')))"

text \<open>
  \<^verbatim>\<open>register\<close> and \<^verbatim>\<open>login\<close>; the password context (\<^verbatim>\<open>hash_password\<close>,
  \<^verbatim>\<open>verify_password\<close>) is a parameter.
\<close>

definition register ::
  "(string \<Rightarrow> string) \<Rightarrow> string \<Rightarrow> string \<Rightarrow> db \<Rightarrow> exn + db \<times> response" where
  "register hash_password uname password d =
     (case find (\<lambda>u. username u = uname) (users d) of
        Some existing_user \<Rightarrow> Inr (d, TemplateResponse ''register.html'')
      | None \<Rightarrow>
          Inr (d\<lparr>users := users d @
                    [\<lparr>user_ident = next_id (map user_ident (users d)), username = uname,
                      password_hash = hash_password password, is_active = True\<rparr>]\<rparr>,
               RedirectResponse ''/login''))"

definition login ::
  "(string \<Rightarrow> string \<Rightarrow> bool) \<Rightarrow> string \<Rightarrow> string \<Rightarrow> db \<Rightarrow> exn + db \<times> response" where
  "login verify_password uname password d =
     (case find (\<lambda>u. username u = uname) (users d) of
        None \<Rightarrow> Inr (d, TemplateResponse ''login.html'')
      | Some u \<Rightarrow>
          if \<not> verify_password password (password_hash u)
          then Inr (d, TemplateResponse ''login.html'')
          else (case find (\<lambda>c. user_id c = user_ident u) (cities d) of
                  None \<Rightarrow>
                    Inr (d\<lparr>cities := add_defaults (default_cities d) (user_ident u) (cities d)\<rparr>,
                         RedirectSetCookie ''/'' (user_ident u))
                | Some c \<Rightarrow> Inr (d, RedirectSetCookie ''/'' (user_ident u))))"

text \<open>A city whose temperature is present has a timestamp.\<close>

definition dated :: "city \<Rightarrow> bool" where
  "dated c = (temperature c = JNull \<or> updated_at c \<noteq> None)"

text \<open>The states of the database: no city at first, then any sequence of requests.\<close>

inductive reachable :: "db \<Rightarrow> bool" where
  initial: "cities d = [] \<Longrightarrow> reachable d"
| by_add_city: "reachable d \<Longrightarrow> add_city nm lat lon cookie d = Inr (d', r) \<Longrightarrow> reachable d'"
| by_remove_city: "reachable d \<Longrightarrow> remove_city cid cookie d = Inr (d', r) \<Longrightarrow> reachable d'"
| by_reset_cities: "reachable d \<Longrightarrow> reset_cities cookie d = Inr (d', r) \<Longrightarrow> reachable d'"
| by_update_weather:
    "reachable d \<Longrightarrow> update_weather now net cookie d = Inr (d', reqs, r) \<Longrightarrow> reachable d'"
| by_register: "reachable d \<Longrightarrow> register hash_password uname password d = Inr (d', r) \<Longrightarrow> reachable d'"
| by_login: "reachable d \<Longrightarrow> login verify_password uname password d = Inr (d', r) \<Longrightarrow> reachable d'"

section \<open>Concrete batches\<close>

text \<open>
  The batch of the scenario: at \<open>T0\<close>, \<open>point_A\<close> was refreshed 10 minutes ago, \<open>point_B\<close>
  never, \<open>point_C\<close> 20 minutes ago, and \<open>point_D\<close> exactly 15 minutes ago; \<open>point_E\<close>
  belongs to another user.
\<close>

definition T0 :: datetime where
  "T0 = timedelta_minutes 60"

definition point_A :: city where
  "point_A = \<lparr>city_id = 1, name = ''A'', latitude = 55, longitude = 37,
              temperature = JNum 21, updated_at = Some (T0 - timedelta_minutes 10),
              user_id = 1\<rparr>"

definition point_B :: city where
  "point_B = \<lparr>city_id = 2, name = ''B'', latitude = 59, longitude = 30,
              temperature = JNull, updated_at = None, user_id = 1\<rparr>"

definition point_C :: city where
  "point_C = \<lparr>city_id = 3, name = ''C'', latitude = 48, longitude = 2,
              temperature = JNum 3, updated_at = Some (T0 - timedelta_minutes 20),
              user_id = 1\<rparr>"

definition point_D :: city where
  "point_D = \<lparr>city_id = 4, name = ''D'', latitude = 40, longitude = 116,
              temperature = JNum 7, updated_at = Some (T0 - timedelta_minutes 15),
              user_id = 1\<rparr>"

definition point_E :: city where
  "point_E = \<lparr>city_id = 5, name = ''A'', latitude = 55, longitude = 37,
              temperature = JNull, updated_at = None, user_id = 2\<rparr>"

definition point_F :: city where
  "point_F = \<lparr>city_id = 6, name = ''F'', latitude = 35, longitude = 139,
              temperature = JNum 9, updated_at = Some (T0 - timedelta_minutes 30),
              user_id = 1\<rparr>"

definition alice :: user where
  "alice = \<lparr>user_ident = 1, username = ''alice'', password_hash = ''x'', is_active = True\<rparr>"

definition bob :: user where
  "bob = \<lparr>user_ident = 2, username = ''bob'', password_hash = ''y'', is_active = True\<rparr>"

definition example_db :: db where
  "example_db = \<lparr>users = [alice, bob],
                 cities = [point_A, point_B, point_E, point_C, point_D],
                 default_cities = []\<rparr>"

text \<open>
  \<open>example_db\<close> after user 1 refreshed at \<open>T0\<close>, the provider failing for \<open>point_C\<close> alone
  and reading 18 for the others.
\<close>

definition db_after :: db where
  "db_after = \<lparr>users = [alice, bob],
               cities = [point_A,
                         point_B\<lparr>temperature := JNum 18, updated_at := Some T0\<rparr>,
                         point_E,
                         point_C\<lparr>temperature := JNull, updated_at := Some T0\<rparr>,
                         point_D],
               default_cities = []\<rparr>"

text \<open>Answers of the provider: a reading, a timeout, and a payload whose field is a string.\<close>

definition reading :: "real \<Rightarrow> get_result" where
  "reading t =
     Response 200 (Parsed (JObj [(''current_weather'', JObj [(''temperature'', JNum t)])]))"

definition failing :: provider where
  "failing k lat lon = Raised TimeoutError"

definition fails_for :: "int \<Rightarrow> provider" where
  "fails_for bad k lat lon = (if k = bad then Raised TimeoutError else reading 18)"

definition hot_session :: session where
  "hot_session lat lon =
     Response 200 (Parsed (JObj [(''current_weather'', JObj [(''temperature'', JStr ''hot'')])]))"

text \<open>
  A database with one user and no city, the same after the user added a city, and after a
  refresh at \<open>T0\<close> for which the provider failed.
\<close>

definition db_empty :: db where
  "db_empty = \<lparr>users = [alice], cities = [], default_cities = []\<rparr>"

definition db_added :: db where
  "db_added = \<lparr>users = [alice],
               cities = [\<lparr>city_id = 1, name = ''B'', latitude = 59, longitude = 30,
                          temperature = JNull, updated_at = None, user_id = 1\<rparr>],
               default_cities = []\<rparr>"

definition db_failed :: db where
  "db_failed = \<lparr>users = [alice],
                cities = [\<lparr>city_id = 1, name = ''B'', latitude = 59, longitude = 30,
                           temperature = JNull, updated_at = Some T0, user_id = 1\<rparr>],
                default_cities = []\<rparr>"

definition db_refreshed :: db where
  "db_refreshed = \<lparr>users = [alice],
                   cities = [\<lparr>city_id = 1, name = ''B'', latitude = 59, longitude = 30,
                              temperature = JNum 18, updated_at = Some T0, user_id = 1\<rparr>],
                   default_cities = []\<rparr>"

section \<open>Facts about \<^verbatim>\<open>fetch_weather\<close>\<close>

lemma fetch_weather_Raised:
  "session lat lon = Raised e \<Longrightarrow> fetch_weather session lat lon = JNull"
  by (simp add: fetch_weather_def fetch_weather_try_def)

lemma fetch_weather_status:
  "session lat lon = Response status payload \<Longrightarrow> status \<noteq> 200 \<Longrightarrow>
   fetch_weather session lat lon = JNull"
  by (simp add: fetch_weather_def fetch_weather_try_def)

lemma fetch_weather_Unparsable:
  "session lat lon = Response 200 (Unparsable e) \<Longrightarrow> fetch_weather session lat lon = JNull"
  by (simp add: fetch_weather_def fetch_weather_try_def)

lemma py_get_cases:
  "py_get v k d = (case v of JObj items \<Rightarrow> Inr (case map_of items k of None \<Rightarrow> d | Some x \<Rightarrow> x)
                   | _ \<Rightarrow> Inl AttributeError)"
  by (cases v) simp_all

lemma fetch_weather_value:
  "fetch_weather session lat lon \<noteq> JNull \<longleftrightarrow>
     (\<exists>items current t.
        session lat lon = Response 200 (Parsed (JObj items)) \<and>
        map_of items ''current_weather'' = Some (JObj current) \<and>
        map_of current ''temperature'' = Some t \<and> t \<noteq> JNull \<and>
        fetch_weather session lat lon = t)"
  by (auto simp: fetch_weather_def fetch_weather_try_def py_get_cases
      split: get_result.splits body.splits json.splits sum.splits option.splits if_splits)

lemma fetch_weather_field:
  "session lat lon = Response 200 (Parsed (JObj items)) \<Longrightarrow>
   map_of items ''current_weather'' = Some (JObj current) \<Longrightarrow>
   fetch_weather session lat lon =
     (case map_of current ''temperature'' of None \<Rightarrow> JNull | Some t \<Rightarrow> t)"
  by (simp add: fetch_weather_def fetch_weather_try_def)

lemma fetch_weather_not_object:
  "session lat lon = Response 200 (Parsed data) \<Longrightarrow> \<forall>items. data \<noteq> JObj items \<Longrightarrow>
   fetch_weather session lat lon = JNull"
  by (cases data) (simp_all add: fetch_weather_def fetch_weather_try_def)

lemma fetch_weather_no_current:
  "session lat lon = Response 200 (Parsed (JObj items)) \<Longrightarrow>
   map_of items ''current_weather'' = None \<Longrightarrow>
   fetch_weather session lat lon = JNull"
  by (simp add: fetch_weather_def fetch_weather_try_def)

lemma fetch_weather_current_not_object:
  "session lat lon = Response 200 (Parsed (JObj items)) \<Longrightarrow>
   map_of items ''current_weather'' = Some v \<Longrightarrow> \<forall>current. v \<noteq> JObj current \<Longrightarrow>
   fetch_weather session lat lon = JNull"
  by (cases v) (simp_all add: fetch_weather_def fetch_weather_try_def)

lemma is_stale_iff:
  "is_stale now c \<longleftrightarrow> (updated_at c = None \<or> (\<exists>t. updated_at c = Some t \<and> now - t > 900000000))"
  by (auto simp: is_stale_def timedelta_minutes_def split: option.splits)


section \<open>Facts about the event loop\<close>

lemma length_step: "length (step now net i ts) = length ts"
  by (simp add: step_def)

lemma nth_step:
  "j < length ts \<Longrightarrow> step now net i ts ! j = (if i = j then advance now net (ts ! j) else ts ! j)"
  by (simp add: step_def nth_list_update)

lemma length_run_loop: "length (run_loop now net schedule ts) = length ts"
  unfolding run_loop_def by (induction schedule arbitrary: ts) (simp_all add: length_step)

lemma nth_run_loop:
  "j < length ts \<Longrightarrow>
   run_loop now net schedule ts ! j = (advance now net ^^ count_list schedule j) (ts ! j)"
  unfolding run_loop_def
proof (induction schedule arbitrary: ts)
  case Nil
  then show ?case by simp
next
  case (Cons i schedule)
  have "fold (step now net) (i # schedule) ts ! j
        = (advance now net ^^ count_list schedule j) (step now net i ts ! j)"
    using Cons.IH [of "step now net i ts"] Cons.prems by (simp add: length_step)
  also have "\<dots> = (advance now net ^^ count_list (i # schedule) j) (ts ! j)"
    using Cons.prems by (simp add: nth_step funpow_swap1)
  finally show ?case .
qed


lemma advance_new_task:
  "advance now net (new_task c) =
     (if is_stale now c
      then \<lparr>phase = Waiting, subject = c, sent = [(latitude c, longitude c)]\<rparr>
      else \<lparr>phase = Done, subject = c, sent = []\<rparr>)"
  by (simp add: advance_def resume_def new_task_def)

lemma advance_Waiting:
  "advance now net \<lparr>phase = Waiting, subject = c, sent = rs\<rparr> =
     \<lparr>phase = Done,
      subject = c\<lparr>temperature := fetch_weather (net (city_id c)) (latitude c) (longitude c),
                  updated_at := Some now\<rparr>,
      sent = rs\<rparr>"
  by (simp add: advance_def resume_def)

lemma advance_Done: "phase t = Done \<Longrightarrow> advance now net t = t"
  by (simp add: advance_def resume_def)

lemma funpow_advance_Done: "phase t = Done \<Longrightarrow> (advance now net ^^ n) t = t"
  by (induction n) (simp_all add: advance_Done)

lemma finished_task:
  "\<lparr>phase = Done, subject = fst (update_city now (net (city_id c)) c),
     sent = snd (update_city now (net (city_id c)) c)\<rparr> =
   (if is_stale now c then advance now net (advance now net (new_task c)) else advance now net (new_task c))"
  by (simp add: advance_new_task advance_Waiting update_city_def)

lemma funpow_advance_new_task:
  "(advance now net ^^ n) (new_task c) =
     (if n = 0 then new_task c
      else if \<not> is_stale now c then \<lparr>phase = Done, subject = c, sent = []\<rparr>
      else if n = 1 then \<lparr>phase = Waiting, subject = c, sent = [(latitude c, longitude c)]\<rparr>
      else \<lparr>phase = Done,
            subject = c\<lparr>temperature := fetch_weather (net (city_id c)) (latitude c) (longitude c),
                        updated_at := Some now\<rparr>,
            sent = [(latitude c, longitude c)]\<rparr>)"
proof (induction n)
  case 0
  then show ?case by simp
next
  case (Suc n)
  then show ?case
    by (auto simp: advance_new_task advance_Waiting advance_Done)
qed

lemma nth_spawn_run:
  "i < length cs \<Longrightarrow>
   run_loop now net schedule (spawn cs) ! i =
     (advance now net ^^ count_list schedule i) (new_task (cs ! i))"
  by (simp add: nth_run_loop spawn_def)

lemma done_task:
  assumes "i < length cs" and "phase (run_loop now net schedule (spawn cs) ! i) = Done"
  shows "subject (run_loop now net schedule (spawn cs) ! i)
           = fst (update_city now (net (city_id (cs ! i))) (cs ! i))"
    and "sent (run_loop now net schedule (spawn cs) ! i)
           = snd (update_city now (net (city_id (cs ! i))) (cs ! i))"
  using assms(2) unfolding nth_spawn_run [OF assms(1)] funpow_advance_new_task
  by (auto simp: update_city_def new_task_def split: if_splits)

lemma all_done_gather:
  assumes "all_done (run_loop now net schedule (spawn cs))"
  shows "map subject (run_loop now net schedule (spawn cs)) = fst (gather now net cs)"
    and "concat (map sent (run_loop now net schedule (spawn cs))) = snd (gather now net cs)"
proof -
  let ?ts = "run_loop now net schedule (spawn cs)"
  have len: "length ?ts = length cs"
    by (simp add: length_run_loop spawn_def)
  have fin: "phase (?ts ! i) = Done" if "i < length cs" for i
    using assms that len by (simp add: all_done_def list_all_length)
  show "map subject ?ts = fst (gather now net cs)"
    by (rule nth_equalityI) (simp_all add: len gather_def done_task(1) fin)
  have "map sent ?ts = map (\<lambda>c. snd (update_city now (net (city_id c)) c)) cs"
    by (rule nth_equalityI) (simp_all add: len done_task(2) fin)
  then show "concat (map sent ?ts) = snd (gather now net cs)"
    by (simp add: gather_def)
qed

lemma twice_all_done:
  assumes "\<And>i. i < length cs \<Longrightarrow> 2 \<le> count_list schedule i"
  shows "all_done (run_loop now net schedule (spawn cs))"
proof -
  have "phase (run_loop now net schedule (spawn cs) ! i) = Done" if "i < length cs" for i
    using assms [OF that] that
    by (auto simp: nth_spawn_run funpow_advance_new_task)
  then show ?thesis
    by (simp add: all_done_def list_all_length length_run_loop spawn_def)
qed

lemma count_list_upt: "count_list [0..<n] i = (if i < n then 1 else 0)"
  by (induction n) auto

lemma count_list_round_robin: "i < n \<Longrightarrow> count_list (round_robin n) i = 2"
  by (simp add: round_robin_def count_list_upt)


section \<open>Facts about \<^verbatim>\<open>update_city\<close> and the commit\<close>

lemma update_city_frame:
  "city_id (fst (update_city now session c)) = city_id c"
  "name (fst (update_city now session c)) = name c"
  "latitude (fst (update_city now session c)) = latitude c"
  "longitude (fst (update_city now session c)) = longitude c"
  "user_id (fst (update_city now session c)) = user_id c"
  by (simp_all add: update_city_def)

lemma update_city_not_stale:
  "\<not> is_stale now c \<Longrightarrow> update_city now session c = (c, [])"
  by (simp add: update_city_def)

lemma update_city_stale:
  "is_stale now c \<Longrightarrow>
   update_city now session c =
     (c\<lparr>temperature := fetch_weather session (latitude c) (longitude c), updated_at := Some now\<rparr>,
      [(latitude c, longitude c)])"
  by (simp add: update_city_def)

lemma not_stale_after: "\<not> is_stale now (c\<lparr>temperature := t, updated_at := Some now\<rparr>)"
  by (simp add: is_stale_def timedelta_minutes_def)

lemma not_stale_update_city: "\<not> is_stale now (fst (update_city now session c))"
  by (simp add: update_city_def not_stale_after)

lemma find_filter_key:
  "distinct (map key xs) \<Longrightarrow> x \<in> set xs \<Longrightarrow>
   find (\<lambda>c. key c = key x) (filter P xs) = (if P x then Some x else None)"
proof (induction xs)
  case Nil
  then show ?case by simp
next
  case (Cons a xs)
  show ?case
  proof (cases "a = x")
    case True
    have "key x \<notin> key ` set xs"
      using Cons.prems True by simp
    then have "find (\<lambda>c. key c = key x) (filter P xs) = None"
      unfolding find_None_iff by (auto simp: image_iff)
    with True show ?thesis by simp
  next
    case False
    with Cons.prems have "x \<in> set xs" and "key a \<noteq> key x"
      by auto
    with Cons show ?thesis by simp
  qed
qed

lemma find_map_key:
  "(\<And>c. key (f c) = key c) \<Longrightarrow>
   find (\<lambda>c. key c = k) (map f xs) = map_option f (find (\<lambda>c. key c = k) xs)"
  by (induction xs) simp_all

lemma commit_cities_map:
  assumes "distinct (map city_id table)" and "\<And>c. city_id (f c) = city_id c"
  shows "commit_cities (map f (filter P table)) table =
           map (\<lambda>row. if P row then f row else row) table"
proof -
  have "(case find (\<lambda>c. city_id c = city_id row) (map f (filter P table)) of
           None \<Rightarrow> row | Some c \<Rightarrow> c) = (if P row then f row else row)"
    if "row \<in> set table" for row
    using find_filter_key [OF assms(1) that, of P] assms(2)
    by (simp add: find_map_key [where key = city_id and f = f])
  then show ?thesis
    by (simp add: commit_cities_def)
qed

lemma update_weather_rows:
  assumes "get_current_user cookie d = Some u" and "distinct (map city_id (cities d))"
  shows "update_weather now net cookie d =
           Inr (d\<lparr>cities :=
                    map (\<lambda>row. if user_id row = user_ident u
                                then fst (update_city now (net (city_id row)) row) else row)
                      (cities d)\<rparr>,
                concat (map (\<lambda>c. snd (update_city now (net (city_id c)) c))
                          (filter (\<lambda>c. user_id c = user_ident u) (cities d))),
                RedirectResponse ''/'')"
  using assms(1)
    commit_cities_map [OF assms(2), of "\<lambda>c. fst (update_city now (net (city_id c)) c)"
      "\<lambda>c. user_id c = user_ident u"]
  by (simp add: update_weather_def gather_def update_city_frame)


section \<open>The refresh test\<close>

text \<open>
  C1. A city whose \<open>updated_at\<close> is absent is refreshed; one whose \<open>updated_at\<close> is \<open>t\<close> is
  refreshed exactly when \<open>now - t\<close> is strictly greater than the cooldown, so that an
  elapsed time equal to the cooldown does not refresh it. The cooldown is the 15 minutes of
  line 200, and a request is sent exactly when the test holds.
\<close>

theorem refresh_eligibility:
  "(updated_at c = None \<longrightarrow> is_stale now c) \<and>
   (updated_at c = Some t \<longrightarrow> (is_stale now c \<longleftrightarrow> now - t > timedelta_minutes 15)) \<and>
   (updated_at c = Some (now - timedelta_minutes 15) \<longrightarrow> \<not> is_stale now c) \<and>
   timedelta_minutes 15 = 15 * 60 * 1000000 \<and>
   snd (update_city now session c) = (if is_stale now c then [(latitude c, longitude c)] else [])"
  by (simp add: is_stale_def update_city_def timedelta_minutes_def)


text \<open>
  The scenario at \<open>T0\<close>: B (never refreshed) and C (20 minutes ago) are refreshed, A (10
  minutes ago) and D (exactly 15 minutes ago) are not.
\<close>

theorem refresh_eligibility_witness:
  "updated_at point_B = None \<and> is_stale T0 point_B \<and>
   updated_at point_C = Some (T0 - timedelta_minutes 20) \<and> is_stale T0 point_C \<and>
   updated_at point_A = Some (T0 - timedelta_minutes 10) \<and> \<not> is_stale T0 point_A \<and>
   updated_at point_D = Some (T0 - timedelta_minutes 15) \<and> \<not> is_stale T0 point_D \<and>
   snd (update_city T0 (failing 1) point_A) = [] \<and>
   snd (update_city T0 (failing 2) point_B) = [(59, 30)]"
  using refresh_eligibility [of point_B T0 0 "failing 2"]
    refresh_eligibility [of point_C T0 "T0 - timedelta_minutes 20" "failing 3"]
    refresh_eligibility [of point_A T0 "T0 - timedelta_minutes 10" "failing 1"]
    refresh_eligibility [of point_D T0 "T0 - timedelta_minutes 15" "failing 4"]
  by (simp add: point_A_def point_B_def point_C_def point_D_def T0_def timedelta_minutes_def)


section \<open>A failed fetch\<close>

text \<open>
  C2, as stated, does not hold: \<open>point_C\<close> has the cached temperature 3 and is stale at
  \<open>T0\<close>; with a provider that always fails, the batch advances its timestamp to \<open>T0\<close> and
  replaces its temperature by \<^verbatim>\<open>None\<close>.
\<close>

theorem failed_fetch_keeps_temperature_counterexample:
  "is_stale T0 point_C \<and>
   fetch_weather (failing (city_id point_C)) (latitude point_C) (longitude point_C) = JNull \<and>
   temperature point_C = JNum 3 \<and>
   fst (gather T0 failing [point_C]) = [point_C\<lparr>temperature := JNull, updated_at := Some T0\<rparr>] \<and>
   updated_at (hd (fst (gather T0 failing [point_C]))) = Some T0 \<and>
   temperature (hd (fst (gather T0 failing [point_C]))) \<noteq> temperature point_C"
  by (simp add: gather_def update_city_def is_stale_def fetch_weather_def fetch_weather_try_def
      failing_def point_C_def T0_def timedelta_minutes_def)


text \<open>
  C2, amended. In every batch, a stale city for which the fetch fails leaves the batch with
  its timestamp advanced to \<open>now\<close> and its temperature absent, whatever it was before; the
  other fields are those it had.
\<close>

theorem failed_fetch_outcome:
  assumes "i < length cs" and "is_stale now (cs ! i)"
    and "fetch_weather (net (city_id (cs ! i))) (latitude (cs ! i)) (longitude (cs ! i)) = JNull"
  shows "fst (gather now net cs) ! i = (cs ! i)\<lparr>temperature := JNull, updated_at := Some now\<rparr>"
  using assms by (simp add: gather_def update_city_def)



theorem failed_fetch_outcome_witness:
  "(2::nat) < length [point_A, point_B, point_C] \<and>
   is_stale T0 ([point_A, point_B, point_C] ! 2) \<and>
   fetch_weather (failing 3) 48 2 = JNull \<and>
   fst (gather T0 failing [point_A, point_B, point_C]) ! 2 =
     point_C\<lparr>temperature := JNull, updated_at := Some T0\<rparr>"
proof -
  have 1: "(2::nat) < length [point_A, point_B, point_C]" by simp
  have 2: "is_stale T0 ([point_A, point_B, point_C] ! 2)"
    by (simp add: is_stale_def point_C_def T0_def timedelta_minutes_def)
  have 3: "fetch_weather (failing (city_id ([point_A, point_B, point_C] ! 2)))
             (latitude ([point_A, point_B, point_C] ! 2))
             (longitude ([point_A, point_B, point_C] ! 2)) = JNull"
    by (simp add: fetch_weather_Raised failing_def)
  from failed_fetch_outcome [of 2 "[point_A, point_B, point_C]" T0 failing, OF 1 2 3] 1 2 3 show ?thesis
    by (simp add: point_C_def)
qed


section \<open>The failure modes of \<^verbatim>\<open>fetch_weather\<close>\<close>

text \<open>
  C7, as stated, does not hold for a malformed field: a payload whose temperature is the
  string \<^verbatim>\<open>"hot"\<close> is answered by that string, not by \<^verbatim>\<open>None\<close>.
\<close>

theorem malformed_temperature_counterexample:
  "fetch_weather hot_session 0 0 = JStr ''hot'' \<and> fetch_weather hot_session 0 0 \<noteq> JNull"
  by (simp add: fetch_weather_def fetch_weather_try_def hot_session_def)


text \<open>
  C7, amended. \<^verbatim>\<open>fetch_weather\<close> raises nothing. It returns \<^verbatim>\<open>None\<close> for a transport
  failure, for a status other than 200, for a body that does not parse, for a payload that
  is not an object, for a payload without \<^verbatim>\<open>current_weather\<close> or whose
  \<^verbatim>\<open>current_weather\<close> is not an object, and for a \<^verbatim>\<open>current_weather\<close> without
  \<^verbatim>\<open>temperature\<close>. When the status is 200 and the payload is an object whose
  \<^verbatim>\<open>current_weather\<close> is an object with a \<^verbatim>\<open>temperature\<close>, it returns that field as it
  stands, of whatever type (\<^verbatim>\<open>None\<close> when the field is null). So it returns a value other
  than \<^verbatim>\<open>None\<close> exactly when such a field is present and not null.
\<close>

theorem fetch_weather_failure_modes:
  "(session lat lon = Raised e \<longrightarrow> fetch_weather session lat lon = JNull) \<and>
   (session lat lon = Response status payload \<and> status \<noteq> 200 \<longrightarrow>
      fetch_weather session lat lon = JNull) \<and>
   (session lat lon = Response 200 (Unparsable e) \<longrightarrow> fetch_weather session lat lon = JNull) \<and>
   (session lat lon = Response 200 (Parsed data) \<and> (\<forall>items. data \<noteq> JObj items) \<longrightarrow>
      fetch_weather session lat lon = JNull) \<and>
   (session lat lon = Response 200 (Parsed (JObj items)) \<and>
    map_of items ''current_weather'' = None \<longrightarrow>
      fetch_weather session lat lon = JNull) \<and>
   (session lat lon = Response 200 (Parsed (JObj items)) \<and>
    map_of items ''current_weather'' = Some v \<and> (\<forall>current. v \<noteq> JObj current) \<longrightarrow>
      fetch_weather session lat lon = JNull) \<and>
   (session lat lon = Response 200 (Parsed (JObj items)) \<and>
    map_of items ''current_weather'' = Some (JObj current) \<and>
    map_of current ''temperature'' = None \<longrightarrow>
      fetch_weather session lat lon = JNull) \<and>
   (session lat lon = Response 200 (Parsed (JObj items)) \<and>
    map_of items ''current_weather'' = Some (JObj current) \<and>
    map_of current ''temperature'' = Some t \<longrightarrow>
      fetch_weather session lat lon = t) \<and>
   (fetch_weather session lat lon \<noteq> JNull \<longleftrightarrow>
      (\<exists>items current t.
         session lat lon = Response 200 (Parsed (JObj items)) \<and>
         map_of items ''current_weather'' = Some (JObj current) \<and>
         map_of current ''temperature'' = Some t \<and> t \<noteq> JNull))"
proof (intro conjI impI)
  show "fetch_weather session lat lon \<noteq> JNull \<longleftrightarrow>
      (\<exists>items current t.
         session lat lon = Response 200 (Parsed (JObj items)) \<and>
         map_of items ''current_weather'' = Some (JObj current) \<and>
         map_of current ''temperature'' = Some t \<and> t \<noteq> JNull)"
  proof
    assume "fetch_weather session lat lon \<noteq> JNull"
    with fetch_weather_value [of session lat lon] show
      "\<exists>items current t.
         session lat lon = Response 200 (Parsed (JObj items)) \<and>
         map_of items ''current_weather'' = Some (JObj current) \<and>
         map_of current ''temperature'' = Some t \<and> t \<noteq> JNull"
      by blast
  next
    assume "\<exists>items current t.
         session lat lon = Response 200 (Parsed (JObj items)) \<and>
         map_of items ''current_weather'' = Some (JObj current) \<and>
         map_of current ''temperature'' = Some t \<and> t \<noteq> JNull"
    then obtain items current t where
      "session lat lon = Response 200 (Parsed (JObj items))"
      "map_of items ''current_weather'' = Some (JObj current)"
      "map_of current ''temperature'' = Some t" "t \<noteq> JNull"
      by blast
    with fetch_weather_field [of session lat lon items current]
    show "fetch_weather session lat lon \<noteq> JNull"
      by simp
  qed
qed (auto simp: fetch_weather_Raised fetch_weather_status fetch_weather_Unparsable
      fetch_weather_not_object fetch_weather_no_current fetch_weather_current_not_object
      fetch_weather_field)

text \<open>
  One answer of each kind: a timeout, a 404, a body that does not parse, a list, an object
  without \<^verbatim>\<open>current_weather\<close>, one whose \<^verbatim>\<open>current_weather\<close> is a string, one whose
  \<^verbatim>\<open>current_weather\<close> has no \<^verbatim>\<open>temperature\<close>, a temperature that is a string, and a
  reading.
\<close>

theorem fetch_weather_failure_modes_witness:
  "fetch_weather (failing 1) 55 37 = JNull \<and>
   fetch_weather (\<lambda>lat lon. Response 404 (Parsed JNull)) 55 37 = JNull \<and>
   fetch_weather (\<lambda>lat lon. Response 200 (Unparsable JSONDecodeError)) 55 37 = JNull \<and>
   fetch_weather (\<lambda>lat lon. Response 200 (Parsed (JArr []))) 55 37 = JNull \<and>
   fetch_weather (\<lambda>lat lon. Response 200 (Parsed (JObj []))) 55 37 = JNull \<and>
   fetch_weather (\<lambda>lat lon. Response 200 (Parsed (JObj [(''current_weather'', JStr ''x'')]))) 55 37 = JNull \<and>
   fetch_weather (\<lambda>lat lon. Response 200 (Parsed (JObj [(''current_weather'', JObj [])]))) 55 37 = JNull \<and>
   fetch_weather hot_session 0 0 = JStr ''hot'' \<and>
   fetch_weather (\<lambda>lat lon. reading 18) 55 37 = JNum 18"
proof -
  have a: "fetch_weather (failing 1) 55 37 = JNull"
    using fetch_weather_failure_modes [where session = "failing 1" and lat = 55 and lon = 37
        and e = TimeoutError and status = 200 and payload = "Parsed JNull" and data = "JNull"
        and items = "[]" and v = "JNull" and current = "[]" and t = "JNull"]
    by (simp add: failing_def)
  have b: "fetch_weather (\<lambda>lat lon. Response 404 (Parsed JNull)) 55 37 = JNull"
    using fetch_weather_failure_modes [where session = "\<lambda>lat lon. Response 404 (Parsed JNull)" and lat = 55 and lon = 37
        and e = TimeoutError and status = 404 and payload = "Parsed JNull" and data = "JNull"
        and items = "[]" and v = "JNull" and current = "[]" and t = "JNull"]
    by (simp)
  have c: "fetch_weather (\<lambda>lat lon. Response 200 (Unparsable JSONDecodeError)) 55 37 = JNull"
    using fetch_weather_failure_modes [where session = "\<lambda>lat lon. Response 200 (Unparsable JSONDecodeError)" and lat = 55 and lon = 37
        and e = JSONDecodeError and status = 200 and payload = "Parsed JNull" and data = "JNull"
        and items = "[]" and v = "JNull" and current = "[]" and t = "JNull"]
    by (simp)
  have d: "fetch_weather (\<lambda>lat lon. Response 200 (Parsed (JArr []))) 55 37 = JNull"
    using fetch_weather_failure_modes [where session = "\<lambda>lat lon. Response 200 (Parsed (JArr []))" and lat = 55 and lon = 37
        and e = TimeoutError and status = 200 and payload = "Parsed JNull" and data = "JArr []"
        and items = "[]" and v = "JNull" and current = "[]" and t = "JNull"]
    by (simp)
  have f: "fetch_weather (\<lambda>lat lon. Response 200 (Parsed (JObj []))) 55 37 = JNull"
    using fetch_weather_failure_modes [where session = "\<lambda>lat lon. Response 200 (Parsed (JObj []))" and lat = 55 and lon = 37
        and e = TimeoutError and status = 200 and payload = "Parsed JNull" and data = "JObj []"
        and items = "[]" and v = "JNull" and current = "[]" and t = "JNull"]
    by (simp)
  have g: "fetch_weather (\<lambda>lat lon. Response 200 (Parsed (JObj [(''current_weather'', JStr ''x'')]))) 55 37 = JNull"
    using fetch_weather_failure_modes [where session = "\<lambda>lat lon. Response 200 (Parsed (JObj [(''current_weather'', JStr ''x'')]))" and lat = 55 and lon = 37
        and e = TimeoutError and status = 200 and payload = "Parsed JNull" and data = "JObj [(''current_weather'', JStr ''x'')]"
        and items = "[(''current_weather'', JStr ''x'')]" and v = "JStr ''x''" and current = "[]" and t = "JNull"]
    by (simp)
  have h: "fetch_weather (\<lambda>lat lon. Response 200 (Parsed (JObj [(''current_weather'', JObj [])]))) 55 37 = JNull"
    using fetch_weather_failure_modes [where session = "\<lambda>lat lon. Response 200 (Parsed (JObj [(''current_weather'', JObj [])]))" and lat = 55 and lon = 37
        and e = TimeoutError and status = 200 and payload = "Parsed JNull" and data = "JObj [(''current_weather'', JObj [])]"
        and items = "[(''current_weather'', JObj [])]" and v = "JObj []" and current = "[]" and t = "JNull"]
    by (simp)
  have i: "fetch_weather hot_session 0 0 = JStr ''hot''"
    using fetch_weather_failure_modes [where session = "hot_session" and lat = 0 and lon = 0
        and e = TimeoutError and status = 200 and payload = "Parsed JNull" and data = "JObj [(''current_weather'', JObj [(''temperature'', JStr ''hot'')])]"
        and items = "[(''current_weather'', JObj [(''temperature'', JStr ''hot'')])]" and v = "JObj [(''temperature'', JStr ''hot'')]" and current = "[(''temperature'', JStr ''hot'')]" and t = "JStr ''hot''"]
    by (simp add: hot_session_def)
  have j: "fetch_weather (\<lambda>lat lon. reading 18) 55 37 = JNum 18"
    using fetch_weather_failure_modes [where session = "\<lambda>lat lon. reading 18" and lat = 55 and lon = 37
        and e = TimeoutError and status = 200 and payload = "Parsed JNull" and data = "JObj [(''current_weather'', JObj [(''temperature'', JNum 18)])]"
        and items = "[(''current_weather'', JObj [(''temperature'', JNum 18)])]" and v = "JObj [(''temperature'', JNum 18)]" and current = "[(''temperature'', JNum 18)]" and t = "JNum 18"]
    by (simp add: reading_def)
  from a b c d f g h i j show ?thesis
    by (intro conjI)
qed

section \<open>Temperature and timestamp in the reachable states\<close>
lemma dated_insert_city:
  "\<forall>c\<in>set cs. dated c \<Longrightarrow> \<forall>c\<in>set (insert_city nm lat lon owner cs). dated c"
  by (simp add: insert_city_def dated_def)

lemma dated_add_defaults:
  "\<forall>c\<in>set cs. dated c \<Longrightarrow> \<forall>c\<in>set (add_defaults ds owner cs). dated c"
  unfolding add_defaults_def
proof (induction ds arbitrary: cs)
  case Nil
  then show ?case by simp
next
  case (Cons d ds)
  from Cons.prems have "\<forall>c\<in>set (insert_city (default_name d) (default_latitude d)
      (default_longitude d) owner cs). dated c"
    by (rule dated_insert_city)
  from Cons.IH [OF this] show ?case by simp
qed

lemma dated_update_city: "dated c \<Longrightarrow> dated (fst (update_city now session c))"
  by (simp add: update_city_def dated_def)

lemma dated_commit_cities:
  assumes "\<forall>c\<in>set changed. dated c" and "\<forall>c\<in>set table. dated c"
  shows "\<forall>c\<in>set (commit_cities changed table). dated c"
proof
  fix c assume "c \<in> set (commit_cities changed table)"
  then obtain row where row: "row \<in> set table"
    and c: "c = (case find (\<lambda>x. city_id x = city_id row) changed of None \<Rightarrow> row | Some x \<Rightarrow> x)"
    by (auto simp: commit_cities_def)
  show "dated c"
  proof (cases "find (\<lambda>x. city_id x = city_id row) changed")
    case None
    with c row assms(2) show ?thesis by simp
  next
    case (Some x)
    then have "x \<in> set changed"
      by (auto simp: find_Some_iff)
    with c Some assms(1) show ?thesis by simp
  qed
qed

lemma dated_gather:
  "\<forall>c\<in>set cs. dated c \<Longrightarrow> \<forall>c\<in>set (fst (gather now net cs)). dated c"
  by (auto simp: gather_def dated_update_city)

lemma dated_filter: "\<forall>c\<in>set cs. dated c \<Longrightarrow> \<forall>c\<in>set (filter P cs). dated c"
  by simp

lemma dated_add_city:
  "\<forall>c\<in>set (cities d). dated c \<Longrightarrow> add_city nm lat lon cookie d = Inr (d', r) \<Longrightarrow>
   \<forall>c\<in>set (cities d'). dated c"
  using dated_insert_city [of "cities d"]
  by (auto simp: add_city_def split: option.splits)

lemma dated_remove_city:
  "\<forall>c\<in>set (cities d). dated c \<Longrightarrow> remove_city cid cookie d = Inr (d', r) \<Longrightarrow>
   \<forall>c\<in>set (cities d'). dated c"
  by (auto simp: remove_city_def split: option.splits)

lemma dated_reset_cities:
  assumes "\<forall>c\<in>set (cities d). dated c" and "reset_cities cookie d = Inr (d', r)"
  shows "\<forall>c\<in>set (cities d'). dated c"
proof (cases "get_current_user cookie d")
  case None
  with assms(2) show ?thesis by (simp add: reset_cities_def)
next
  case (Some u)
  with assms(2) have
    "cities d' = add_defaults (default_cities d) (user_ident u)
                   (filter (\<lambda>c. user_id c \<noteq> user_ident u) (cities d))"
    by (auto simp: reset_cities_def)
  with dated_add_defaults [OF dated_filter [OF assms(1)]] show ?thesis
    by simp
qed

lemma dated_update_weather:
  assumes "\<forall>c\<in>set (cities d). dated c" and "update_weather now net cookie d = Inr (d', reqs, r)"
  shows "\<forall>c\<in>set (cities d'). dated c"
proof (cases "get_current_user cookie d")
  case None
  with assms(2) show ?thesis by (simp add: update_weather_def)
next
  case (Some u)
  with assms(2) have
    "cities d' = commit_cities
       (fst (gather now net (filter (\<lambda>c. user_id c = user_ident u) (cities d)))) (cities d)"
    by (auto simp: update_weather_def gather_def Let_def)
  with dated_commit_cities [OF dated_gather [OF dated_filter [OF assms(1)]] assms(1)]
  show ?thesis by simp
qed

lemma dated_register:
  "\<forall>c\<in>set (cities d). dated c \<Longrightarrow> register hash_password uname password d = Inr (d', r) \<Longrightarrow>
   \<forall>c\<in>set (cities d'). dated c"
  by (auto simp: register_def split: option.splits)

lemma dated_login:
  "\<forall>c\<in>set (cities d). dated c \<Longrightarrow> login verify_password uname password d = Inr (d', r) \<Longrightarrow>
   \<forall>c\<in>set (cities d'). dated c"
  using dated_add_defaults [of "cities d"]
  by (auto simp: login_def split: option.splits if_splits)

lemma reachable_dated: "reachable d \<Longrightarrow> \<forall>c\<in>set (cities d). dated c"
proof (induction rule: reachable.induct)
  case (initial d)
  then show ?case by simp
next
  case (by_add_city d nm lat lon cookie d' r)
  then show ?case by (blast intro: dated_add_city [rule_format])
next
  case (by_remove_city d cid cookie d' r)
  then show ?case by (blast intro: dated_remove_city [rule_format])
next
  case (by_reset_cities d cookie d' r)
  then show ?case by (blast intro: dated_reset_cities [rule_format])
next
  case (by_update_weather d now net cookie d' reqs r)
  then show ?case by (blast intro: dated_update_weather [rule_format])
next
  case (by_register d hash_password uname password d' r)
  then show ?case by (blast intro: dated_register [rule_format])
next
  case (by_login d verify_password uname password d' r)
  then show ?case by (blast intro: dated_login [rule_format])
qed

lemma example_add:
  "add_city ''B'' 59 30 (Some 1) db_empty = Inr (db_added, RedirectResponse ''/'')"
  by (simp add: add_city_def get_current_user_def db_empty_def db_added_def alice_def
      insert_city_def next_id_def)

lemma example_failed:
  "update_weather T0 failing (Some 1) db_added = Inr (db_failed, [(59, 30)], RedirectResponse ''/'')"
  by (simp add: update_weather_def get_current_user_def db_added_def db_failed_def alice_def
      gather_def update_city_def is_stale_def commit_cities_def fetch_weather_def
      fetch_weather_try_def failing_def)

lemma example_refreshed:
  "update_weather T0 (fails_for 0) (Some 1) db_added =
     Inr (db_refreshed, [(59, 30)], RedirectResponse ''/'')"
  by (simp add: update_weather_def get_current_user_def db_added_def db_refreshed_def alice_def
      gather_def update_city_def is_stale_def commit_cities_def fetch_weather_def
      fetch_weather_try_def fails_for_def reading_def)

lemma reachable_db_added: "reachable db_added"
  by (rule reachable.by_add_city [OF reachable.initial example_add]) (simp add: db_empty_def)

text \<open>
  C3, as stated, does not hold: after a user added a city and refreshed at \<open>T0\<close> while the
  provider failed, the city has a timestamp and no temperature.
\<close>

theorem timestamp_without_temperature_counterexample:
  "reachable db_failed \<and>
   temperature (hd (cities db_failed)) = JNull \<and>
   updated_at (hd (cities db_failed)) = Some T0 \<and>
   \<not> (temperature (hd (cities db_failed)) \<noteq> JNull \<longleftrightarrow> updated_at (hd (cities db_failed)) \<noteq> None)"
proof -
  have "reachable db_failed"
    by (rule reachable.by_update_weather [OF reachable_db_added example_failed])
  then show ?thesis
    by (simp add: db_failed_def)
qed

text \<open>
  C3, amended. In every reachable state, every city whose temperature is present has its
  \<open>updated_at\<close> present: no request sets a temperature without a timestamp. (The converse
  fails by design: an attempt that fetched nothing sets the timestamp alone.)
\<close>

theorem temperature_implies_timestamp:
  assumes "reachable d" and "c \<in> set (cities d)" and "temperature c \<noteq> JNull"
  shows "updated_at c \<noteq> None"
  using reachable_dated [OF assms(1)] assms(2,3) by (auto simp: dated_def)

theorem temperature_implies_timestamp_witness:
  "reachable db_refreshed \<and> hd (cities db_refreshed) \<in> set (cities db_refreshed) \<and>
   temperature (hd (cities db_refreshed)) = JNum 18 \<and>
   updated_at (hd (cities db_refreshed)) = Some T0"
proof -
  have r: "reachable db_refreshed"
    by (rule reachable.by_update_weather [OF reachable_db_added example_refreshed])
  have m: "hd (cities db_refreshed) \<in> set (cities db_refreshed)"
    by (simp add: db_refreshed_def)
  have t: "temperature (hd (cities db_refreshed)) \<noteq> JNull"
    by (simp add: db_refreshed_def)
  from temperature_implies_timestamp [OF r m t] r m show ?thesis
    by (simp add: db_refreshed_def)
qed

section \<open>Adding a city twice\<close>

text \<open>
  C8. When the current user already has a city of the name given, \<^verbatim>\<open>add_city\<close> raises
  nothing, answers with the redirect to the root page and leaves the database, hence the
  user's cities and their number, as they were.
\<close>

theorem duplicate_insert_is_noop:
  assumes "get_current_user cookie d = Some u" and "c \<in> set (cities d)"
    and "name c = nm" and "user_id c = user_ident u"
  shows "add_city nm lat lon cookie d = Inr (d, RedirectResponse ''/'')"
proof -
  have "find (\<lambda>c. name c = nm \<and> user_id c = user_ident u) (cities d) \<noteq> None"
    using assms(2-4) by (auto simp: find_None_iff)
  with assms(1) show ?thesis
    by (auto simp: add_city_def)
qed

theorem duplicate_insert_is_noop_witness:
  "get_current_user (Some 1) example_db = Some alice \<and> point_A \<in> set (cities example_db) \<and>
   name point_A = ''A'' \<and> user_id point_A = user_ident alice \<and>
   add_city ''A'' 0 0 (Some 1) example_db = Inr (example_db, RedirectResponse ''/'') \<and>
   length (cities example_db) = 5"
proof -
  have 1: "get_current_user (Some 1) example_db = Some alice"
    by (simp add: get_current_user_def example_db_def alice_def)
  have 2: "point_A \<in> set (cities example_db)"
    by (simp add: example_db_def)
  have 3: "name point_A = ''A''"
    by (simp add: point_A_def)
  have 4: "user_id point_A = user_ident alice"
    by (simp add: point_A_def alice_def)
  from duplicate_insert_is_noop [OF 1 2 3 4, of 0 0] 1 2 3 4 show ?thesis
    by (simp add: example_db_def)
qed

section \<open>Requests without a user\<close>




section \<open>The refresh endpoint on the example\<close>

lemma requests_of_batch:
  "concat (map (\<lambda>c. snd (update_city now (net (city_id c)) c)) cs) =
     map (\<lambda>c. (latitude c, longitude c)) (filter (is_stale now) cs)"
  by (induction cs) (simp_all add: update_city_def)

lemma update_city_restore:
  "(fst (update_city now session c))\<lparr>temperature := temperature c, updated_at := updated_at c\<rparr> = c"
  by (simp add: update_city_def)

lemma example_user: "get_current_user (Some 1) example_db = Some alice"
  by (simp add: get_current_user_def example_db_def alice_def)

lemma example_distinct: "distinct (map city_id (cities example_db))"
  by (simp add: example_db_def point_A_def point_B_def point_C_def point_D_def point_E_def)

lemma example_refresh:
  "update_weather T0 (fails_for 3) (Some 1) example_db =
     Inr (db_after, [(59, 30), (48, 2)], RedirectResponse ''/'')"
  by (simp add: update_weather_def get_current_user_def example_db_def db_after_def alice_def
      bob_def gather_def update_city_def is_stale_def commit_cities_def fetch_weather_def
      fetch_weather_try_def fails_for_def reading_def point_A_def point_B_def point_C_def
      point_D_def point_E_def T0_def timedelta_minutes_def)

lemma example_run:
  "run_loop T0 (fails_for 3) [2, 0, 1, 1, 0, 2] (spawn [point_B, point_C, point_F]) =
     [\<lparr>phase = Done, subject = point_B\<lparr>temperature := JNum 18, updated_at := Some T0\<rparr>,
        sent = [(59, 30)]\<rparr>,
      \<lparr>phase = Done, subject = point_C\<lparr>temperature := JNull, updated_at := Some T0\<rparr>,
        sent = [(48, 2)]\<rparr>,
      \<lparr>phase = Done, subject = point_F\<lparr>temperature := JNum 18, updated_at := Some T0\<rparr>,
        sent = [(35, 139)]\<rparr>]"
  by (simp add: run_loop_def step_def spawn_def new_task_def advance_def resume_def
      is_stale_def fetch_weather_def fetch_weather_try_def fails_for_def reading_def
      point_B_def point_C_def point_F_def T0_def timedelta_minutes_def)

section \<open>Failure isolation\<close>

text \<open>
  C4. Every coroutine of a batch finishes: the round-robin schedule, and any schedule that
  resumes each coroutine at least twice, ends with all of them done, so the batch returns.
  In whatever order the event loop resumed them, once all are done each city is what its
  own answer alone makes it: if it was stale, its temperature is the result of its own
  fetch (absent when that fetch failed) and its timestamp is \<open>now\<close>; otherwise it is
  unchanged. A failure for one city changes nothing for another.
\<close>

theorem failure_isolation:
  "all_done (run_loop now net (round_robin (length cs)) (spawn cs)) \<and>
   (list_all (\<lambda>i. 2 \<le> count_list schedule i) [0..<length cs] \<longrightarrow>
      all_done (run_loop now net schedule (spawn cs))) \<and>
   (all_done (run_loop now net schedule (spawn cs)) \<longrightarrow>
      map subject (run_loop now net schedule (spawn cs)) =
        map (\<lambda>c. if is_stale now c
                 then c\<lparr>temperature := fetch_weather (net (city_id c)) (latitude c) (longitude c),
                        updated_at := Some now\<rparr>
                 else c) cs)"
proof (intro conjI impI)
  show "all_done (run_loop now net (round_robin (length cs)) (spawn cs))"
    by (rule twice_all_done) (simp add: count_list_round_robin)
next
  assume "list_all (\<lambda>i. 2 \<le> count_list schedule i) [0..<length cs]"
  then show "all_done (run_loop now net schedule (spawn cs))"
    by (intro twice_all_done) (simp add: list_all_iff)
next
  assume "all_done (run_loop now net schedule (spawn cs))"
  then show "map subject (run_loop now net schedule (spawn cs)) =
        map (\<lambda>c. if is_stale now c
                 then c\<lparr>temperature := fetch_weather (net (city_id c)) (latitude c) (longitude c),
                        updated_at := Some now\<rparr>
                 else c) cs"
    by (simp add: all_done_gather(1) gather_def update_city_def if_distrib cong: if_cong)
qed

text \<open>
  Three stale cities, the provider failing for \<open>point_C\<close> alone, the coroutines resumed
  out of order: B and F receive the reading, C no temperature, all three the timestamp \<open>T0\<close>.
\<close>

theorem failure_isolation_witness:
  "all_done (run_loop T0 (fails_for 3) [2, 0, 1, 1, 0, 2] (spawn [point_B, point_C, point_F])) \<and>
   is_stale T0 point_B \<and> is_stale T0 point_C \<and> is_stale T0 point_F \<and>
   fetch_weather (fails_for 3 2) 59 30 = JNum 18 \<and>
   fetch_weather (fails_for 3 3) 48 2 = JNull \<and>
   fetch_weather (fails_for 3 6) 35 139 = JNum 18 \<and>
   map subject (run_loop T0 (fails_for 3) [2, 0, 1, 1, 0, 2] (spawn [point_B, point_C, point_F])) =
     [point_B\<lparr>temperature := JNum 18, updated_at := Some T0\<rparr>,
      point_C\<lparr>temperature := JNull, updated_at := Some T0\<rparr>,
      point_F\<lparr>temperature := JNum 18, updated_at := Some T0\<rparr>]"
proof -
  have fin: "all_done (run_loop T0 (fails_for 3) [2, 0, 1, 1, 0, 2]
      (spawn [point_B, point_C, point_F]))"
    unfolding example_run by (simp add: all_done_def)
  have stale: "is_stale T0 point_B \<and> is_stale T0 point_C \<and> is_stale T0 point_F"
    by (simp add: is_stale_def point_B_def point_C_def point_F_def T0_def timedelta_minutes_def)
  have answers: "fetch_weather (fails_for 3 2) 59 30 = JNum 18 \<and>
      fetch_weather (fails_for 3 3) 48 2 = JNull \<and>
      fetch_weather (fails_for 3 6) 35 139 = JNum 18"
    by (simp add: fetch_weather_def fetch_weather_try_def fails_for_def reading_def)
  from failure_isolation [of T0 "fails_for 3" "[point_B, point_C, point_F]" "[2, 0, 1, 1, 0, 2]"]
    fin
  have "map subject (run_loop T0 (fails_for 3) [2, 0, 1, 1, 0, 2]
          (spawn [point_B, point_C, point_F])) =
        map (\<lambda>c. if is_stale T0 c
                 then c\<lparr>temperature := fetch_weather (fails_for 3 (city_id c)) (latitude c)
                          (longitude c), updated_at := Some T0\<rparr>
                 else c) [point_B, point_C, point_F]"
    by blast
  with fin stale answers show ?thesis
    by (simp add: point_B_def point_C_def point_F_def)
qed

section \<open>Primary keys in the reachable states\<close>

text \<open>
  The primary keys of the cities are distinct in every reachable state: a new row takes a
  key larger than every key of the table, and no request changes the key of a row.
\<close>

lemma fold_max_ge: "a \<le> fold max keys (a::int)"
proof (induction keys arbitrary: a)
  case Nil
  then show ?case by simp
next
  case (Cons k keys)
  have "a \<le> max k a" by simp
  also have "\<dots> \<le> fold max keys (max k a)" by (rule Cons.IH)
  finally show ?case by simp
qed

lemma fold_max_member: "k \<in> set keys \<Longrightarrow> k \<le> fold max keys (a::int)"
proof (induction keys arbitrary: a)
  case Nil
  then show ?case by simp
next
  case (Cons x keys)
  show ?case
  proof (cases "k = x")
    case True
    have "k \<le> max x a" using True by simp
    also have "\<dots> \<le> fold max keys (max x a)" by (rule fold_max_ge)
    finally show ?thesis by simp
  next
    case False
    with Cons.prems have "k \<in> set keys" by simp
    from Cons.IH [OF this] show ?thesis by simp
  qed
qed

lemma next_id_fresh: "next_id keys \<notin> set keys"
  using fold_max_member [of "next_id keys" keys 0] by (auto simp: next_id_def)

lemma distinct_insert_city:
  "distinct (map city_id cs) \<Longrightarrow> distinct (map city_id (insert_city nm lat lon owner cs))"
  using next_id_fresh [of "map city_id cs"] by (simp add: insert_city_def)

lemma distinct_add_defaults:
  "distinct (map city_id cs) \<Longrightarrow> distinct (map city_id (add_defaults ds owner cs))"
  unfolding add_defaults_def
proof (induction ds arbitrary: cs)
  case Nil
  then show ?case by simp
next
  case (Cons d ds)
  from Cons.IH [OF distinct_insert_city [OF Cons.prems]] show ?case by simp
qed

lemma city_id_commit_cities: "map city_id (commit_cities changed table) = map city_id table"
proof -
  have "city_id (case find (\<lambda>c. city_id c = city_id row) changed of None \<Rightarrow> row | Some c \<Rightarrow> c)
          = city_id row" for row
    by (auto simp: find_Some_iff split: option.splits)
  then show ?thesis
    by (simp add: commit_cities_def)
qed

lemma reachable_distinct: "reachable d \<Longrightarrow> distinct (map city_id (cities d))"
proof (induction rule: reachable.induct)
  case (initial d)
  then show ?case by simp
next
  case (by_add_city d nm lat lon cookie d' r)
  then show ?case
    using distinct_insert_city [of "cities d"]
    by (auto simp: add_city_def split: option.splits)
next
  case (by_remove_city d cid cookie d' r)
  then show ?case
    by (auto simp: remove_city_def distinct_map_filter split: option.splits)
next
  case (by_reset_cities d cookie d' r)
  show ?case
  proof (cases "get_current_user cookie d")
    case None
    with by_reset_cities.hyps(2) show ?thesis by (simp add: reset_cities_def)
  next
    case (Some u)
    with by_reset_cities.hyps(2) have
      "cities d' = add_defaults (default_cities d) (user_ident u)
                     (filter (\<lambda>c. user_id c \<noteq> user_ident u) (cities d))"
      by (auto simp: reset_cities_def)
    with distinct_add_defaults [OF distinct_map_filter [OF by_reset_cities.IH]]
    show ?thesis by simp
  qed
next
  case (by_update_weather d now net cookie d' reqs r)
  show ?case
  proof (cases "get_current_user cookie d")
    case None
    with by_update_weather.hyps(2) show ?thesis by (simp add: update_weather_def)
  next
    case (Some u)
    with by_update_weather.hyps(2) have
      "cities d' = commit_cities
         (fst (gather now net (filter (\<lambda>c. user_id c = user_ident u) (cities d)))) (cities d)"
      by (auto simp: update_weather_def gather_def Let_def)
    with by_update_weather.IH show ?thesis
      by (simp add: city_id_commit_cities)
  qed
next
  case (by_register d hash_password uname password d' r)
  then show ?case
    by (auto simp: register_def split: option.splits)
next
  case (by_login d verify_password uname password d' r)
  then show ?case
    using distinct_add_defaults [of "cities d"]
    by (auto simp: login_def split: option.splits if_splits)
qed

section \<open>Cities that are not refreshed\<close>

text \<open>
  C5. A refresh by user \<open>u\<close> sends a request for exactly the stale cities of \<open>u\<close>, in
  table order, and for no other; every city that is another user's or is not stale is the
  same row afterwards; and in every row only \<open>temperature\<close> and \<open>updated_at\<close> may differ
  from before. Users and default cities are untouched. (The primary keys of the table are
  distinct, as they are in every reachable state.)
\<close>

theorem skipped_points_untouched:
  assumes "get_current_user cookie d = Some u" and "distinct (map city_id (cities d))"
    and "update_weather now net cookie d = Inr (d', requests, r)"
  shows "users d' = users d \<and> default_cities d' = default_cities d \<and>
         length (cities d') = length (cities d) \<and>
         requests = map (\<lambda>c. (latitude c, longitude c))
                      (filter (\<lambda>c. user_id c = user_ident u \<and> is_stale now c) (cities d)) \<and>
         (\<forall>i<length (cities d).
            (cities d' ! i)\<lparr>temperature := temperature (cities d ! i),
                            updated_at := updated_at (cities d ! i)\<rparr> = cities d ! i \<and>
            (\<not> (user_id (cities d ! i) = user_ident u \<and> is_stale now (cities d ! i)) \<longrightarrow>
               cities d' ! i = cities d ! i))"
proof -
  let ?f = "\<lambda>row. if user_id row = user_ident u
                   then fst (update_city now (net (city_id row)) row) else row"
  from assms(3) update_weather_rows [OF assms(1,2), of now net]
  have d': "d' = d\<lparr>cities := map ?f (cities d)\<rparr>"
    and reqs: "requests = concat (map (\<lambda>c. snd (update_city now (net (city_id c)) c))
                            (filter (\<lambda>c. user_id c = user_ident u) (cities d)))"
    by simp_all
  have "requests = map (\<lambda>c. (latitude c, longitude c))
          (filter (\<lambda>c. user_id c = user_ident u \<and> is_stale now c) (cities d))"
    unfolding reqs requests_of_batch by (simp add: conj_commute)
  moreover have "(?f row)\<lparr>temperature := temperature row, updated_at := updated_at row\<rparr> = row"
    for row by (simp add: update_city_restore)
  moreover have "?f row = row" if "\<not> (user_id row = user_ident u \<and> is_stale now row)" for row
    using that by (auto simp: update_city_not_stale)
  ultimately show ?thesis
    unfolding d' by simp
qed

theorem skipped_points_untouched_witness:
  "get_current_user (Some 1) example_db = Some alice \<and>
   distinct (map city_id (cities example_db)) \<and>
   update_weather T0 (fails_for 3) (Some 1) example_db =
     Inr (db_after, [(59, 30), (48, 2)], RedirectResponse ''/'') \<and>
   length (cities db_after) = length (cities example_db) \<and>
   \<not> is_stale T0 (cities example_db ! 0) \<and>
   cities db_after ! 0 = cities example_db ! 0 \<and>
   user_id (cities example_db ! 2) \<noteq> user_ident alice \<and>
   cities db_after ! 2 = cities example_db ! 2 \<and>
   (cities db_after ! 1)\<lparr>temperature := temperature (cities example_db ! 1),
                          updated_at := updated_at (cities example_db ! 1)\<rparr> =
     cities example_db ! 1"
proof -
  note th = skipped_points_untouched [OF example_user example_distinct example_refresh]
  note rows = th [THEN conjunct2, THEN conjunct2, THEN conjunct2, THEN conjunct2, rule_format]
  have len: "length (cities db_after) = length (cities example_db)"
    by (rule th [THEN conjunct2, THEN conjunct2, THEN conjunct1])
  have 0: "0 < length (cities example_db)" and 1: "1 < length (cities example_db)"
    and 2: "2 < length (cities example_db)"
    by (simp_all add: example_db_def)
  have fresh: "\<not> is_stale T0 (cities example_db ! 0)"
    by (simp add: example_db_def point_A_def is_stale_def T0_def timedelta_minutes_def)
  have other: "user_id (cities example_db ! 2) \<noteq> user_ident alice"
    by (simp add: example_db_def point_E_def alice_def)
  from rows [OF 0] fresh have a: "cities db_after ! 0 = cities example_db ! 0"
    by blast
  from rows [OF 2] other have e: "cities db_after ! 2 = cities example_db ! 2"
    by blast
  from rows [OF 1] have b: "(cities db_after ! 1)\<lparr>temperature := temperature (cities example_db ! 1),
      updated_at := updated_at (cities example_db ! 1)\<rparr> = cities example_db ! 1"
    by (rule conjunct1)
  from example_user example_distinct example_refresh len fresh a other e b show ?thesis
    by (intro conjI)
qed

section \<open>Refreshing twice at the same time\<close>

text \<open>
  C6. After a refresh at \<open>now\<close>, a second refresh by the same user at the same \<open>now\<close>
  sends no request at all, whatever the provider would answer, and leaves the database as
  the first refresh left it: every city refreshed by the first pass has the timestamp
  \<open>now\<close>, and the cooldown of 15 minutes is positive.
\<close>

theorem second_refresh_sends_nothing:
  assumes "get_current_user cookie d = Some u" and "distinct (map city_id (cities d))"
    and "update_weather now net cookie d = Inr (d', requests, r)"
  shows "update_weather now net' cookie d' = Inr (d', [], RedirectResponse ''/'')"
proof -
  let ?f = "\<lambda>row. if user_id row = user_ident u
                   then fst (update_city now (net (city_id row)) row) else row"
  let ?g = "\<lambda>row. if user_id row = user_ident u
                   then fst (update_city now (net' (city_id row)) row) else row"
  from assms(3) update_weather_rows [OF assms(1,2), of now net]
  have d': "d' = d\<lparr>cities := map ?f (cities d)\<rparr>"
    by simp
  have users: "users d' = users d"
    by (simp add: d')
  have "get_current_user cookie d' = get_current_user cookie d"
    unfolding get_current_user_def users ..
  with assms(1) have u': "get_current_user cookie d' = Some u"
    by simp
  have "map city_id (cities d') = map city_id (cities d)"
    by (simp add: d' update_city_frame)
  with assms(2) have dist': "distinct (map city_id (cities d'))"
    by simp
  have fresh: "\<not> is_stale now row" if "row \<in> set (cities d')" "user_id row = user_ident u" for row
    using that by (auto simp: d' not_stale_update_city update_city_frame split: if_splits)
  have same: "map ?g (cities d') = cities d'"
    by (rule map_idI) (simp add: update_city_not_stale fresh)
  have "concat (map (\<lambda>c. snd (update_city now (net' (city_id c)) c))
          (filter (\<lambda>c. user_id c = user_ident u) (cities d'))) = []"
    by (simp add: requests_of_batch filter_empty_conv fresh)
  with update_weather_rows [OF u' dist', of now net'] same show ?thesis
    by simp
qed

theorem second_refresh_sends_nothing_witness:
  "get_current_user (Some 1) example_db = Some alice \<and>
   distinct (map city_id (cities example_db)) \<and>
   update_weather T0 (fails_for 3) (Some 1) example_db =
     Inr (db_after, [(59, 30), (48, 2)], RedirectResponse ''/'') \<and>
   update_weather T0 (fails_for 0) (Some 1) db_after = Inr (db_after, [], RedirectResponse ''/'')"
  using second_refresh_sends_nothing [OF example_user example_distinct example_refresh,
      of "fails_for 0"]
    example_user example_distinct example_refresh
  by simp

section \<open>One timestamp for the batch\<close>

text \<open>
  C9. \<open>now\<close> is read once, before the batch. At every moment of every schedule, the
  timestamp of a city is \<open>now\<close> if its coroutine has finished and the city was stale, and
  is its timestamp of before the batch otherwise: it depends neither on the answer of the
  provider nor on the moment at which the coroutine was resumed. After the batch every
  stale city has the timestamp \<open>now\<close>.
\<close>

theorem one_timestamp_per_batch:
  assumes "i < length cs"
  shows "updated_at (subject (run_loop now net schedule (spawn cs) ! i)) =
           (if phase (run_loop now net schedule (spawn cs) ! i) = Done \<and> is_stale now (cs ! i)
            then Some now else updated_at (cs ! i)) \<and>
         updated_at (fst (gather now net cs) ! i) =
           (if is_stale now (cs ! i) then Some now else updated_at (cs ! i))"
  using assms unfolding nth_spawn_run [OF assms] funpow_advance_new_task
  by (simp add: gather_def update_city_def new_task_def)

theorem one_timestamp_per_batch_witness:
  "(1::nat) < length [point_B, point_C, point_F] \<and>
   is_stale T0 ([point_B, point_C, point_F] ! 1) \<and>
   phase (run_loop T0 (fails_for 3) [2, 0, 1, 1, 0, 2] (spawn [point_B, point_C, point_F]) ! 1) = Done \<and>
   updated_at (subject (run_loop T0 (fails_for 3) [2, 0, 1, 1, 0, 2]
                          (spawn [point_B, point_C, point_F]) ! 1)) = Some T0 \<and>
   phase (run_loop T0 (fails_for 3) [2, 0, 1] (spawn [point_B, point_C, point_F]) ! 1) = Waiting \<and>
   updated_at (subject (run_loop T0 (fails_for 3) [2, 0, 1]
                          (spawn [point_B, point_C, point_F]) ! 1)) =
     updated_at ([point_B, point_C, point_F] ! 1) \<and>
   updated_at (fst (gather T0 (fails_for 3) [point_B, point_C, point_F]) ! 1) = Some T0"
proof -
  have 1: "(1::nat) < length [point_B, point_C, point_F]"
    by simp
  have stale: "is_stale T0 ([point_B, point_C, point_F] ! 1)"
    by (simp add: is_stale_def point_C_def T0_def timedelta_minutes_def)
  have fin: "phase (run_loop T0 (fails_for 3) [2, 0, 1, 1, 0, 2]
      (spawn [point_B, point_C, point_F]) ! 1) = Done"
    unfolding example_run by simp
  have waiting: "phase (run_loop T0 (fails_for 3) [2, 0, 1] (spawn [point_B, point_C, point_F]) ! 1)
      = Waiting"
    using stale
    by (simp add: run_loop_def step_def spawn_def new_task_def advance_def resume_def)
  note full = one_timestamp_per_batch [OF 1, of T0 "fails_for 3" "[2, 0, 1, 1, 0, 2]"]
  note part = one_timestamp_per_batch [OF 1, of T0 "fails_for 3" "[2, 0, 1]"]
  from full [THEN conjunct1] fin stale
  have a: "updated_at (subject (run_loop T0 (fails_for 3) [2, 0, 1, 1, 0, 2]
      (spawn [point_B, point_C, point_F]) ! 1)) = Some T0"
    by (simp only: simp_thms if_True)
  from part [THEN conjunct1] waiting
  have b: "updated_at (subject (run_loop T0 (fails_for 3) [2, 0, 1]
      (spawn [point_B, point_C, point_F]) ! 1)) = updated_at ([point_B, point_C, point_F] ! 1)"
    by (simp only: phase.distinct simp_thms if_False)
  from full [THEN conjunct2] stale
  have c: "updated_at (fst (gather T0 (fails_for 3) [point_B, point_C, point_F]) ! 1) = Some T0"
    by (simp only: if_True)
  from 1 stale fin a waiting b c show ?thesis
    by (intro conjI)
qed

end
